theory Spec2Isabelle
  imports Main "HOL-Library.Word"
begin

section \<open>JavaScript strings\<close>

text \<open>
  A JavaScript string is a sequence of UTF-16 code units. The component's source text,
  the regular expressions that rewrite it and the document written into the preview
  frame all work on code units, so a string is a list of 16-bit words here.
  \<open>js\<close> reads an ASCII literal as such a string.
\<close>

type_synonym jschar = "16 word"
type_synonym jsstring = "jschar list"

definition js :: "string \<Rightarrow> jsstring" where
  "js s = map (\<lambda>c. of_nat (of_char c)) s"

text \<open>
  The character classes of the patterns in \<open>updateIframe\<close>: \<open>\s\<close> is ECMAScript's
  WhiteSpace and LineTerminator (the set \<open>String.prototype.trim\<close> strips as well),
  \<open>\w\<close> is \<open>[A-Za-z0-9_]\<close>, \<open>.\<close> is everything but a line terminator (no \<open>s\<close> flag),
  \<open>[\s\S]\<close> is every code unit and \<open>['"]\<close> is one of the two quotes.
\<close>

definition is_space :: "jschar \<Rightarrow> bool" where
  "is_space c =
     (c \<in> set [0x09, 0x0A, 0x0B, 0x0C, 0x0D, 0x20, 0xA0, 0x1680, 0x2028, 0x2029,
               0x202F, 0x205F, 0x3000, 0xFEFF]
      \<or> (0x2000 \<le> c \<and> c \<le> 0x200A))"

definition is_word :: "jschar \<Rightarrow> bool" where
  "is_word c =
     ((0x41 \<le> c \<and> c \<le> 0x5A) \<or> (0x61 \<le> c \<and> c \<le> 0x7A) \<or> (0x30 \<le> c \<and> c \<le> 0x39) \<or> c = 0x5F)"

definition is_dot :: "jschar \<Rightarrow> bool" where
  "is_dot c = (c \<notin> set [0x0A, 0x0D, 0x2028, 0x2029])"

definition is_any :: "jschar \<Rightarrow> bool" where
  "is_any c = (is_space c \<or> \<not> is_space c)"

definition is_quote :: "jschar \<Rightarrow> bool" where
  "is_quote c = (c = 0x27 \<or> c = 0x22)"



definition trim :: "jsstring \<Rightarrow> jsstring" where
  "trim s = rev (dropWhile is_space (rev (dropWhile is_space s)))"



section \<open>Regular expressions and \<open>String.prototype.replace\<close>\<close>

text \<open>
  The fragment of ECMAScript patterns that \<open>updateIframe\<close> uses: literal characters,
  character classes, sequence, the greedy \<open>C+\<close> and the lazy \<open>C*?\<close> over a class \<open>C\<close>,
  the greedy \<open>r?\<close> and a capturing group.
\<close>

datatype regex =
    Eps
  | Lit jschar
  | Class "jschar \<Rightarrow> bool"
  | Seq regex regex
  | Plus "jschar \<Rightarrow> bool"
  | StarLazy "jschar \<Rightarrow> bool"
  | Opt regex
  | Group regex

type_synonym captures = "jsstring list"

text \<open>
  The backtracking matcher, in continuation-passing style as the ECMAScript
  specification gives it: \<open>bt r s cs k\<close> matches \<open>r\<close> at the front of \<open>s\<close> and hands the
  rest of the input and the captures to the continuation \<open>k\<close>; when \<open>k\<close> fails, the
  next alternative of \<open>r\<close> is tried. A greedy quantifier tries the longer match first, a
  lazy one the shorter. A group appends the text it consumed to the captures.
\<close>

fun bt :: "regex \<Rightarrow> jsstring \<Rightarrow> captures \<Rightarrow> (jsstring \<Rightarrow> captures \<Rightarrow> 'r option) \<Rightarrow> 'r option" where
  "bt Eps s cs k = k s cs"
| "bt (Lit c) [] cs k = None"
| "bt (Lit c) (x # xs) cs k = (if x = c then k xs cs else None)"
| "bt (Class P) [] cs k = None"
| "bt (Class P) (x # xs) cs k = (if P x then k xs cs else None)"
| "bt (Seq a b) s cs k = bt a s cs (\<lambda>s' cs'. bt b s' cs' k)"
| "bt (Plus P) [] cs k = None"
| "bt (Plus P) (x # xs) cs k =
     (if P x then (case bt (Plus P) xs cs k of Some r \<Rightarrow> Some r | None \<Rightarrow> k xs cs)
      else None)"
| "bt (StarLazy P) [] cs k = k [] cs"
| "bt (StarLazy P) (x # xs) cs k =
     (case k (x # xs) cs of Some r \<Rightarrow> Some r
      | None \<Rightarrow> if P x then bt (StarLazy P) xs cs k else None)"
| "bt (Opt a) s cs k = (case bt a s cs k of Some r \<Rightarrow> Some r | None \<Rightarrow> k s cs)"
| "bt (Group a) s cs k =
     bt a s cs (\<lambda>s' cs'. k s' (cs' @ [take (length s - length s') s]))"

text \<open>A run of literal characters, such as \<open>import\<close>.\<close>

fun lits :: "jsstring \<Rightarrow> regex" where
  "lits [] = Eps"
| "lits (c # cs) = Seq (Lit c) (lits cs)"

text \<open>
  One match attempt at the front of \<open>s\<close>: the input left after the match and the
  captures, or \<open>None\<close>.
\<close>

definition exec :: "regex \<Rightarrow> jsstring \<Rightarrow> (jsstring \<times> captures) option" where
  "exec r s = bt r s [] (\<lambda>s' cs. Some (s', cs))"

text \<open>
  A replacement string is text and references \<open>$1\<close> to the first group; where the
  pattern has no group, \<open>$1\<close> stands for itself.
\<close>

datatype repl_item = Text jsstring | Group1

fun expand :: "repl_item list \<Rightarrow> captures \<Rightarrow> jsstring" where
  "expand [] cs = []"
| "expand (Text t # items) cs = t @ expand items cs"
| "expand (Group1 # items) cs = (case cs of [] \<Rightarrow> js ''$1'' | g # _ \<Rightarrow> g) @ expand items cs"

text \<open>
  \<open>s.replace(/r/, rep)\<close>: the leftmost match is replaced, the text before and after it
  is kept; with no match the string is returned as it is.
\<close>

fun replace_first :: "regex \<Rightarrow> repl_item list \<Rightarrow> jsstring \<Rightarrow> jsstring" where
  "replace_first r rep [] = (case exec r [] of Some (rest, cs) \<Rightarrow> expand rep cs | None \<Rightarrow> [])"
| "replace_first r rep (x # xs) =
     (case exec r (x # xs) of
        Some (rest, cs) \<Rightarrow> expand rep cs @ rest
      | None \<Rightarrow> x # replace_first r rep xs)"


text \<open>
  \<open>s.replace(/r/g, rep)\<close>: every match is replaced, scanning from the left and resuming
  after each match; after an empty match the scan moves one code unit on.
\<close>

function replace_all :: "regex \<Rightarrow> repl_item list \<Rightarrow> jsstring \<Rightarrow> jsstring" where
  "replace_all r rep [] = (case exec r [] of Some (rest, cs) \<Rightarrow> expand rep cs | None \<Rightarrow> [])"
| "replace_all r rep (x # xs) =
     (case exec r (x # xs) of
        Some (rest, cs) \<Rightarrow>
          if length rest < length (x # xs) then expand rep cs @ replace_all r rep rest
          else expand rep cs @ x # replace_all r rep xs
      | None \<Rightarrow> x # replace_all r rep xs)"
  by pat_completeness auto
termination
  by (relation "measure (\<lambda>(r, rep, s). length s)") auto

section \<open>The code preview component\<close>

subsection \<open>Normalising the source\<close>

text \<open>
  The four patterns of \<open>cleanedCode\<close>:
  \<^verbatim>\<open>/import\s+[\s\S]*?from\s+['"].*?['"];?/g\<close>,
  \<^verbatim>\<open>/export\s+default\s+function\s+(\w+)/\<close>,
  \<^verbatim>\<open>/export\s+default\s+/\<close> and
  \<^verbatim>\<open>/export\s+/g\<close>.
\<close>

definition re_import :: regex where
  "re_import =
     Seq (lits (js ''import'')) (Seq (Plus is_space) (Seq (StarLazy is_any)
       (Seq (lits (js ''from'')) (Seq (Plus is_space) (Seq (Class is_quote)
         (Seq (StarLazy is_dot) (Seq (Class is_quote) (Opt (Lit 0x3B)))))))))"

definition re_export_default_function :: regex where
  "re_export_default_function =
     Seq (lits (js ''export'')) (Seq (Plus is_space) (Seq (lits (js ''default''))
       (Seq (Plus is_space) (Seq (lits (js ''function'')) (Seq (Plus is_space)
         (Group (Plus is_word)))))))"

definition re_export_default :: regex where
  "re_export_default =
     Seq (lits (js ''export'')) (Seq (Plus is_space) (Seq (lits (js ''default''))
       (Plus is_space)))"

definition re_export :: regex where
  "re_export = Seq (lits (js ''export'')) (Plus is_space)"

text \<open>
  \<^verbatim>\<open>code.replace(/import.../g, "").replace(/export\s+default\s+function\s+(\w+)/, "function $1")
      .replace(/export\s+default\s+/, "const App = ").replace(/export\s+/g, "")\<close>
\<close>

definition cleanedCode :: "jsstring \<Rightarrow> jsstring" where
  "cleanedCode code =
     replace_all re_export []
       (replace_first re_export_default [Text (js ''const App = '')]
         (replace_first re_export_default_function [Text (js ''function ''), Group1]
           (replace_all re_import [] code)))"

subsection \<open>The runner template\<close>

text \<open>
  The template literal of \<open>updateIframe\<close>, cut where \<open>cleanedCode\<close> is spliced in and
  around the two messages that the script shows: the notice for a source with no entry
  point, and the box around the text of a caught error.
\<close>

definition runner_head :: jsstring where
  \<open>runner_head = js
    (''\<newline>'' @
     ''        <!DOCTYPE html>\<newline>'' @
     ''        <html>\<newline>'' @
     ''          <head>\<newline>'' @
     ''            <meta charset="UTF-8" />\<newline>'' @
     ''            <script src="https://unpkg.com/@babel/standalone/babel.min.js"></script>\<newline>'' @
     ''            <script src="https://unpkg.com/react@18/umd/react.development.js"></script>\<newline>'' @
     ''            <script src="https://unpkg.com/react-dom@18/umd/react-dom.development.js"></script>\<newline>'' @
     ''            <script src="https://unpkg.com/lucide@latest"></script>\<newline>'' @
     ''            <script src="https://cdn.tailwindcss.com"></script>\<newline>'' @
     ''            <style>\<newline>'' @
     ''              body { \<newline>'' @
     ''                margin: 0; \<newline>'' @
     ''                font-family: -apple-system, BlinkMacSystemFont, "Segoe UI", Roboto, Helvetica, Arial, sans-serif; \<newline>'' @
     ''                background-color: white;\<newline>'' @
     ''                color: #18181b;\<newline>'' @
     ''              }\<newline>'' @
     ''              #root { padding: 0; min-height: 100vh; }\<newline>'' @
     ''              ::-webkit-scrollbar { width: 8px; }\<newline>'' @
     ''              ::-webkit-scrollbar-track { background: #f1f1f1; }\<newline>'' @
     ''              ::-webkit-scrollbar-thumb { background: #888; border-radius: 4px; }\<newline>'' @
     ''              ::-webkit-scrollbar-thumb:hover { background: #555; }\<newline>'' @
     ''            </style>\<newline>'' @
     ''          </head>\<newline>'' @
     ''          <body>\<newline>'' @
     ''            <div id="root"></div>\<newline>'' @
     ''            <script type="text/babel" data-presets="react,typescript">\<newline>'' @
     ''              // Setup globals for the AI code\<newline>'' @
     ''              const { \<newline>'' @
     ''                useState, useEffect, useMemo, useCallback, useRef, \<newline>'' @
     ''                useReducer, useContext, createContext, useLayoutEffect,\<newline>'' @
     ''                useImperativeHandle, useDebugValue, useDeferredValue,\<newline>'' @
     ''                useTransition, useId\<newline>'' @
     ''              } = React;\<newline>'' @
     ''              \<newline>'' @
     ''              // Lucide icon helper\<newline>'' @
     ''              window.LucideReact = window.lucide;\<newline>'' @
     ''\<newline>'' @
     ''              try {\<newline>'' @
     ''                '')\<close>

definition runner_mid :: jsstring where
  \<open>runner_mid = js
    (''\<newline>'' @
     ''                \<newline>'' @
     ''                // Final render logic\<newline>'' @
     ''                const container = document.getElementById('root');\<newline>'' @
     ''                const root = ReactDOM.createRoot(container);\<newline>'' @
     ''                \<newline>'' @
     ''                if (typeof App !== 'undefined') {\<newline>'' @
     ''                  root.render(\<newline>'' @
     ''                    <React.StrictMode>\<newline>'' @
     ''                      <App />\<newline>'' @
     ''                    </React.StrictMode>\<newline>'' @
     ''                  );\<newline>'' @
     ''                } else if (typeof main !== 'undefined') {\<newline>'' @
     ''                  main();\<newline>'' @
     ''                } else {\<newline>'' @
     ''                  console.error("No 'App' component found.");\<newline>'' @
     ''                  container.innerHTML = '' @ [CHR 0x27])\<close>

definition no_app_html :: jsstring where
  \<open>no_app_html = js
    (''<div style="padding: 20px; color: #ef4444;">Error: No <b>App</b> component found. Please define <code>export default function App()</code>.</div>'')\<close>

definition runner_catch :: jsstring where
  \<open>runner_catch = js
    ([CHR 0x27] @ '';\<newline>'' @
     ''                }\<newline>'' @
     ''                \<newline>'' @
     ''                // Initialize lucide icons if any\<newline>'' @
     ''                setTimeout(() => {\<newline>'' @
     ''                  if (window.lucide) {\<newline>'' @
     ''                    window.lucide.createIcons();\<newline>'' @
     ''                  }\<newline>'' @
     ''                }, 100);\<newline>'' @
     ''              } catch (err) {\<newline>'' @
     ''                console.error("Preview Error:", err);\<newline>'' @
     ''                document.getElementById('root').innerHTML = `'')\<close>

definition error_box_head :: jsstring where
  \<open>error_box_head = js
    (''\<newline>'' @
     ''                  <div style="color: #ef4444; background: #fee2e2; padding: 1.5rem; border: 1px solid #fecaca; border-radius: 0.5rem; font-family: ui-monospace, SFMono-Regular, Menlo, Monaco, Consolas, monospace; margin: 1rem;">\<newline>'' @
     ''                    <h3 style="margin-top: 0; color: #991b1b; font-size: 1.125rem;">Runtime Error</h3>\<newline>'' @
     ''                    <pre style="white-space: pre-wrap; margin: 0; font-size: 0.875rem; line-height: 1.5;">'')\<close>

definition err_placeholder :: jsstring where
  \<open>err_placeholder = js
    (''${err.stack || err.toString()}'')\<close>

definition error_box_tail :: jsstring where
  \<open>error_box_tail = js
    (''</pre>\<newline>'' @
     ''                  </div>\<newline>'' @
     ''                '')\<close>

definition runner_foot :: jsstring where
  \<open>runner_foot = js
    (''`;\<newline>'' @
     ''              }\<newline>'' @
     ''            </script>\<newline>'' @
     ''          </body>\<newline>'' @
     ''        </html>\<newline>'' @
     ''      '')\<close>

text \<open>The text after the spliced source, up to the end of the document.\<close>

definition runner_tail :: jsstring where
  "runner_tail =
     runner_mid @ no_app_html @ runner_catch @ error_box_head @ err_placeholder @
     error_box_tail @ runner_foot"

subsection \<open>Composing the document\<close>

text \<open>
  The value of \<open>content\<close> in \<open>updateIframe\<close>: the source itself for \<open>html\<close>, the runner
  around the normalised source for the four script languages, and the empty string
  otherwise.
\<close>

definition updateIframe_content :: "jsstring \<Rightarrow> jsstring \<Rightarrow> jsstring" where
  "updateIframe_content code language =
     (if language = js ''html'' then code
      else if language = js ''jsx'' \<or> language = js ''tsx'' \<or>
              language = js ''javascript'' \<or> language = js ''typescript''
      then runner_head @ cleanedCode code @ runner_tail
      else [])"

subsection \<open>The frame and its document\<close>

text \<open>
  The document of the frame's window, as far as \<open>updateIframe\<close> touches it: the text
  written into it and whether its input stream is open. \<open>open()\<close> discards what the
  document held, \<open>write\<close> appends to an open document (and opens a closed one first),
  \<open>close()\<close> ends the stream.
\<close>

record html_document =
  written :: jsstring
  opened :: bool

definition doc_open :: "html_document \<Rightarrow> html_document" where
  "doc_open d = d\<lparr>written := [], opened := True\<rparr>"

definition doc_write :: "jsstring \<Rightarrow> html_document \<Rightarrow> html_document" where
  "doc_write t d =
     (if opened d then d\<lparr>written := written d @ t\<rparr>
      else (doc_open d)\<lparr>written := t\<rparr>)"

definition doc_close :: "html_document \<Rightarrow> html_document" where
  "doc_close d = d\<lparr>opened := False\<rparr>"

text \<open>
  The frame element: \<open>contentWindow?.document\<close> is undefined for a frame without a
  window.
\<close>

record iframe =
  contentDocument :: "html_document option"

subsection \<open>Props and state of the component\<close>

datatype tab = Preview | Code_tab

record code_preview =
  code :: jsstring
  language :: jsstring
  title :: jsstring
  activeTab :: tab
  isFullscreen :: bool
  copied :: bool
  iframeRef :: "iframe option"

text \<open>
  The state of the first render: the tab is chosen from the language, the title
  defaults to \<open>Preview\<close>, and the frame is not mounted yet.
\<close>

definition CodePreview :: "jsstring \<Rightarrow> jsstring \<Rightarrow> jsstring option \<Rightarrow> code_preview" where
  "CodePreview c l t =
     \<lparr> code = c, language = l,
       title = (case t of None \<Rightarrow> js ''Preview'' | Some x \<Rightarrow> x),
       activeTab = (if l = js ''html'' \<or> l = js ''jsx'' \<or> l = js ''tsx''
                    then Preview else Code_tab),
       isFullscreen = False, copied = False, iframeRef = None \<rparr>"

text \<open>
  \<open>updateIframe\<close>: nothing happens without a mounted frame or without its document;
  otherwise the document is opened, the content written and the document closed.
\<close>

definition updateIframe :: "code_preview \<Rightarrow> code_preview" where
  "updateIframe p =
     (case iframeRef p of
        None \<Rightarrow> p
      | Some fr \<Rightarrow>
          (let content = updateIframe_content (code p) (language p) in
           case contentDocument fr of
             None \<Rightarrow> p
           | Some doc \<Rightarrow>
               p\<lparr>iframeRef :=
                   Some (fr\<lparr>contentDocument :=
                     Some (doc_close (doc_write content (doc_open doc)))\<rparr>)\<rparr>))"

text \<open>The text of the document that the frame holds, when there is one.\<close>

definition loaded :: "code_preview \<Rightarrow> jsstring option" where
  "loaded p =
     (case iframeRef p of
        None \<Rightarrow> None
      | Some fr \<Rightarrow> (case contentDocument fr of None \<Rightarrow> None | Some d \<Rightarrow> Some (written d)))"

subsection \<open>Copying the source\<close>

text \<open>
  What \<open>copyToClipboard\<close> reaches outside the component: the texts handed to
  \<open>navigator.clipboard.writeText\<close>, and the timers of the window with the time each
  is due, in milliseconds. The only callback the component ever schedules is
  \<open>() => setCopied(false)\<close>.
\<close>

datatype timer_callback = Reset_copied

record browser =
  clipboard_writes :: "jsstring list"
  timers :: "(nat \<times> timer_callback) list"
  clock :: nat

definition setTimeout :: "timer_callback \<Rightarrow> nat \<Rightarrow> browser \<Rightarrow> browser" where
  "setTimeout cb delay b = b\<lparr>timers := timers b @ [(clock b + delay, cb)]\<rparr>"

definition copyToClipboard :: "code_preview \<times> browser \<Rightarrow> code_preview \<times> browser" where
  "copyToClipboard =
     (\<lambda>(p, b).
        (p\<lparr>copied := True\<rparr>,
         setTimeout Reset_copied 2000 (b\<lparr>clipboard_writes := clipboard_writes b @ [code p]\<rparr>)))"

fun fire :: "timer_callback \<Rightarrow> code_preview \<Rightarrow> code_preview" where
  "fire Reset_copied p = p\<lparr>copied := False\<rparr>"

text \<open>
  \<open>elapse ms\<close> lets \<open>ms\<close> milliseconds pass with no other event: the timers that fall
  due run in the order of their times, the others stay pending.
\<close>

definition elapse :: "nat \<Rightarrow> code_preview \<times> browser \<Rightarrow> code_preview \<times> browser" where
  "elapse ms =
     (\<lambda>(p, b).
        let t = clock b + ms;
            due = sort_key fst (filter (\<lambda>(d, cb). d \<le> t) (timers b))
        in (foldl (\<lambda>q (d, cb). fire cb q) p due,
            b\<lparr>clock := t, timers := filter (\<lambda>(d, cb). \<not> d \<le> t) (timers b)\<rparr>))"

section \<open>The chat component\<close>

text \<open>
  The languages for which a fenced code block is handed to the preview component:
  \<^verbatim>\<open>["html", "jsx", "tsx", "javascript", "typescript"].includes(language)\<close>.
\<close>

definition isPreviewable :: "jsstring \<Rightarrow> bool" where
  "isPreviewable lang =
     (lang \<in> set [js ''html'', js ''jsx'', js ''tsx'', js ''javascript'', js ''typescript''])"

datatype role = User | Assistant

datatype message_type = Text_message | Image_message

record attachment =
  url :: jsstring
  mimeType :: jsstring
  data :: jsstring

record message =
  id_message :: jsstring
  role :: role
  content :: jsstring
  type_message :: message_type
  imageUrl :: "jsstring option"
  attachments :: "attachment list option"

record chat =
  messages :: "message list"
  input :: jsstring
  isLoading :: bool
  selectedImage :: "attachment option"
  isListening :: bool
  isMicInitializing :: bool
  speakingMessageId :: "jsstring option"
  isGeneratingSpeech :: "jsstring option"

text \<open>
  \<open>handleSubmit\<close>, up to its first \<open>await\<close>: the guard, and the four state updates that
  follow it. \<open>now\<close> is \<open>Date.now().toString()\<close>. \<open>overrideInput || input\<close> reads the
  input field when the override is absent or empty. The event is only told
  \<open>preventDefault()\<close>, and \<open>isImage\<close> only chooses the request that is sent afterwards.
\<close>

definition messageInput :: "jsstring option \<Rightarrow> chat \<Rightarrow> jsstring" where
  "messageInput overrideInput c =
     (case overrideInput of
        None \<Rightarrow> input c
      | Some t \<Rightarrow> if t = [] then input c else t)"

definition userMessage :: "jsstring \<Rightarrow> jsstring \<Rightarrow> chat \<Rightarrow> message" where
  "userMessage now text c =
     \<lparr> id_message = now, role = User, content = text, type_message = Text_message,
       imageUrl = None,
       attachments = (case selectedImage c of None \<Rightarrow> None | Some a \<Rightarrow> Some [a]) \<rparr>"

definition handleSubmit :: "bool \<Rightarrow> jsstring option \<Rightarrow> jsstring \<Rightarrow> chat \<Rightarrow> chat" where
  "handleSubmit isImage overrideInput now c =
     (if (trim (messageInput overrideInput c) = [] \<and> selectedImage c = None) \<or> isLoading c
      then c
      else c\<lparr> messages := messages c @ [userMessage now (messageInput overrideInput c) c],
              input := (if overrideInput = None \<or> overrideInput = Some [] then [] else input c),
              selectedImage := None,
              isLoading := True \<rparr>)"

text \<open>
  The earlier \<open>handleSubmit\<close> of the component, which has no override and always clears
  the input field.
\<close>

definition handleSubmit_earlier :: "bool \<Rightarrow> jsstring \<Rightarrow> chat \<Rightarrow> chat" where
  "handleSubmit_earlier isImage now c =
     (if (trim (input c) = [] \<and> selectedImage c = None) \<or> isLoading c
      then c
      else c\<lparr> messages := messages c @ [userMessage now (input c) c],
              input := [],
              selectedImage := None,
              isLoading := True \<rparr>)"

section \<open>Matching: auxiliary facts\<close>











































lemmas eval_cleanedCode =
  js_def cleanedCode_def re_import_def re_export_default_function_def re_export_default_def
  re_export_def exec_def is_space_def is_word_def is_dot_def is_any_def is_quote_def

section \<open>The default export\<close>




text \<open>
  The two side conditions, and the white space, are needed: the last replace deletes an
  \<open>export\<close> at the end of the name when white space follows, it joins the text on both
  sides of what it deletes, and it passes over an \<open>export\<close> that no white space follows.
\<close>

lemma cleanedCode_name_ending_in_export:
  "cleanedCode (js ''export default function reexport (){}'') = js ''function re(){}''"
  by (simp add: eval_cleanedCode)

lemma cleanedCode_joins_export:
  \<open>cleanedCode (js ''export default function W(){}\<newline>exexport port a;'')
   = js ''function W(){}\<newline>export a;''\<close>
  by (simp add: eval_cleanedCode)

lemma cleanedCode_keeps_export_brace:
  \<open>cleanedCode (js ''export default function App(){}\<newline>export{a}'')
   = js ''function App(){}\<newline>export{a}''\<close>
  by (simp add: eval_cleanedCode)

section \<open>Static imports\<close>

text \<open>
  C7. The claim: every static import of the source is removed. The pattern asks for
  \<open>import\<close>, white space, and further on \<open>from\<close>, white space and a quoted name: an
  import for its effect only, \<open>import './App.css';\<close>, has no \<open>from\<close> and stays in the
  normalised source, where the script of the runner meets it inside its \<open>try\<close> block.
\<close>

theorem cleanedCode_keeps_bare_import:
  \<open>cleanedCode (js ''import './App.css';\<newline>export default function App(){ return <h1>Hi</h1>; }'')
   = js ''import './App.css';\<newline>function App(){ return <h1>Hi</h1>; }''\<close>
  by (simp add: eval_cleanedCode)

section \<open>The first tab\<close>

text \<open>
  C6. The claim: the component starts on the preview for each of the five previewable
  languages, and on the source for any other language.

  The component tests the language against \<open>html\<close>, \<open>jsx\<close> and \<open>tsx\<close> only. A block
  tagged \<open>javascript\<close> is previewable for the chat component, and starts on the source.
\<close>

theorem CodePreview_javascript_starts_on_code:
  "isPreviewable (js ''javascript'') \<and>
   activeTab (CodePreview (js ''let x = 1;'') (js ''javascript'') None) = Code_tab"
  by (simp add: isPreviewable_def CodePreview_def js_def)

text \<open>
  C6, as the code has it: the component starts on the preview exactly for \<open>html\<close>,
  \<open>jsx\<close> and \<open>tsx\<close>; it starts on the source for \<open>javascript\<close> and \<open>typescript\<close>, which
  are previewable, and for every language that is not.
\<close>

theorem CodePreview_first_tab:
  "(activeTab (CodePreview c l t) = Preview) = (l = js ''html'' \<or> l = js ''jsx'' \<or> l = js ''tsx'') \<and>
   (l = js ''javascript'' \<or> l = js ''typescript'' \<longrightarrow> activeTab (CodePreview c l t) = Code_tab) \<and>
   (\<not> isPreviewable l \<longrightarrow> activeTab (CodePreview c l t) = Code_tab)"
  by (auto simp: CodePreview_def isPreviewable_def js_def)

theorem CodePreview_first_tab_witness:
  "activeTab (CodePreview (js ''<p>hi</p>'') (js ''html'') None) = Preview \<and>
   activeTab (CodePreview (js ''let x = 1;'') (js ''typescript'') None) = Code_tab \<and>
   activeTab (CodePreview (js ''print(1)'') (js ''python'') None) = Code_tab"
proof -
  have a: "js ''typescript'' = js ''javascript'' \<or> js ''typescript'' = js ''typescript''"
    by simp
  have b: "\<not> isPreviewable (js ''python'')"
    by (simp add: isPreviewable_def js_def)
  show ?thesis
    using CodePreview_first_tab [of "js ''<p>hi</p>''" "js ''html''" None]
      CodePreview_first_tab [of "js ''let x = 1;''" "js ''typescript''" None]
      CodePreview_first_tab [of "js ''print(1)''" "js ''python''" None] a b
    by blast
qed

section \<open>Composing and presenting the document\<close>

lemma loaded_updateIframe:
  "loaded p \<noteq> None \<Longrightarrow>
   loaded (updateIframe p) = Some (updateIframe_content (code p) (language p))"
  by (auto simp: loaded_def updateIframe_def doc_open_def doc_write_def doc_close_def Let_def
      split: option.splits)

text \<open>
  C3. Composition is a function of the source and the language alone, and it always
  yields a document: two components with the same source and the same previewable
  language, whatever their titles, tabs, flags and frames hold, load the same document
  into their frames, which is the source itself for \<open>html\<close> and the runner around the
  normalised source otherwise. Every step of the composition is a total function: the two
  scans of \<open>replace_all\<close> end because each step shortens the input.
\<close>

theorem updateIframe_content_pure_total:
  assumes "isPreviewable (language p)"
    and "code q = code p" and "language q = language p"
    and "loaded p \<noteq> None" and "loaded q \<noteq> None"
  shows "loaded (updateIframe p) = Some (updateIframe_content (code p) (language p)) \<and>
         loaded (updateIframe q) = loaded (updateIframe p) \<and>
         updateIframe_content (code p) (language p) =
           (if language p = js ''html'' then code p
            else runner_head @ cleanedCode (code p) @ runner_tail)"
proof -
  have shape: "updateIframe_content (code p) (language p) =
      (if language p = js ''html'' then code p
       else runner_head @ cleanedCode (code p) @ runner_tail)"
    using assms(1) by (auto simp: updateIframe_content_def isPreviewable_def)
  show ?thesis
    using shape loaded_updateIframe [OF assms(4)] loaded_updateIframe [OF assms(5)] assms(2,3)
    by simp
qed

theorem updateIframe_content_pure_total_witness:
  "loaded (updateIframe
     \<lparr> code = js ''function App(){}'', language = js ''jsx'', title = js ''JSX Artifact'',
       activeTab = Preview, isFullscreen = False, copied = False,
       iframeRef = Some \<lparr>contentDocument = Some \<lparr>written = [], opened = False\<rparr>\<rparr> \<rparr>)
   = Some (runner_head @ js ''function App(){}'' @ runner_tail) \<and>
   loaded (updateIframe
     \<lparr> code = js ''function App(){}'', language = js ''jsx'', title = js ''Preview'',
       activeTab = Code_tab, isFullscreen = True, copied = True,
       iframeRef = Some \<lparr>contentDocument = Some \<lparr>written = js ''<p>old</p>'', opened = True\<rparr>\<rparr> \<rparr>)
   = Some (runner_head @ js ''function App(){}'' @ runner_tail)"
proof -
  let ?p = "\<lparr> code = js ''function App(){}'', language = js ''jsx'', title = js ''JSX Artifact'',
       activeTab = Preview, isFullscreen = False, copied = False,
       iframeRef = Some \<lparr>contentDocument = Some \<lparr>written = [], opened = False\<rparr>\<rparr> \<rparr>"
  let ?q = "\<lparr> code = js ''function App(){}'', language = js ''jsx'', title = js ''Preview'',
       activeTab = Code_tab, isFullscreen = True, copied = True,
       iframeRef = Some \<lparr>contentDocument = Some \<lparr>written = js ''<p>old</p>'', opened = True\<rparr>\<rparr> \<rparr>"
  have h1: "isPreviewable (language ?p)" by (simp add: isPreviewable_def)
  have h2: "code ?q = code ?p" "language ?q = language ?p" by simp_all
  have h3: "loaded ?p \<noteq> None" "loaded ?q \<noteq> None" by (simp_all add: loaded_def)
  have nh: "js ''jsx'' \<noteq> js ''html''" by (simp add: js_def)
  have cl: "cleanedCode (js ''function App(){}'') = js ''function App(){}''"
    by (simp add: eval_cleanedCode)
  show ?thesis
    using updateIframe_content_pure_total [OF h1 h2 h3] nh cl by simp
qed

text \<open>
  C5. For the language \<open>html\<close> the composed document is the source, code unit for code
  unit, and it is what the frame holds after \<open>updateIframe\<close>.
\<close>

theorem updateIframe_html_identity:
  "updateIframe_content src (js ''html'') = src \<and>
   (language p = js ''html'' \<and> loaded p \<noteq> None \<longrightarrow> loaded (updateIframe p) = Some (code p))"
  by (simp add: loaded_updateIframe) (simp add: updateIframe_content_def)

theorem updateIframe_html_identity_witness:
  \<open>loaded (updateIframe
     \<lparr> code = js ''<h1 class="t">Hi</h1>'', language = js ''html'', title = js ''HTML Artifact'',
       activeTab = Preview, isFullscreen = False, copied = False,
       iframeRef = Some \<lparr>contentDocument = Some \<lparr>written = [], opened = False\<rparr>\<rparr> \<rparr>)
   = Some (js ''<h1 class="t">Hi</h1>'')\<close>
proof -
  let ?p = \<open>\<lparr> code = js ''<h1 class="t">Hi</h1>'', language = js ''html'', title = js ''HTML Artifact'',
       activeTab = Preview, isFullscreen = False, copied = False,
       iframeRef = Some \<lparr>contentDocument = Some \<lparr>written = [], opened = False\<rparr>\<rparr> \<rparr>\<close>
  have h: "language ?p = js ''html'' \<and> loaded ?p \<noteq> None" by (simp add: loaded_def)
  show ?thesis
    using updateIframe_html_identity [of "[]" ?p] h by simp
qed

text \<open>
  C8. Presenting a second document into a frame that holds a first one leaves the frame
  holding exactly the second: \<open>open()\<close> discards the text of the first before the second
  is written. The frame after both reloads is the frame that the second reload alone
  would have left. (The statement is about the text of the frame's document, which is all
  the component writes.)
\<close>

theorem updateIframe_replaces_document:
  assumes "loaded p \<noteq> None"
  shows "loaded (updateIframe ((updateIframe (p\<lparr>code := s, language := l\<rparr>))
                                  \<lparr>code := s', language := l'\<rparr>))
           = Some (updateIframe_content s' l') \<and>
         iframeRef (updateIframe ((updateIframe (p\<lparr>code := s, language := l\<rparr>))
                                    \<lparr>code := s', language := l'\<rparr>))
           = iframeRef (updateIframe (p\<lparr>code := s', language := l'\<rparr>))"
  using assms
  by (auto simp: loaded_def updateIframe_def doc_open_def doc_write_def doc_close_def Let_def
      split: option.splits)

theorem updateIframe_replaces_document_witness:
  "loaded (updateIframe ((updateIframe
     (\<lparr> code = [], language = [], title = js ''Preview'',
        activeTab = Preview, isFullscreen = False, copied = False,
        iframeRef = Some \<lparr>contentDocument = Some \<lparr>written = [], opened = False\<rparr>\<rparr> \<rparr>
      \<lparr>code := js ''<p>first</p>'', language := js ''html''\<rparr>))
     \<lparr>code := js ''<p>second</p>'', language := js ''html''\<rparr>))
   = Some (js ''<p>second</p>'')"
proof -
  let ?p = "\<lparr> code = [], language = [], title = js ''Preview'',
        activeTab = Preview, isFullscreen = False, copied = False,
        iframeRef = Some \<lparr>contentDocument = Some \<lparr>written = [], opened = False\<rparr>\<rparr> \<rparr>"
  have h: "loaded ?p \<noteq> None" by (simp add: loaded_def)
  show ?thesis
    using updateIframe_replaces_document
      [OF h, where s = "js ''<p>first</p>''" and l = "js ''html''"
         and s' = "js ''<p>second</p>''" and l' = "js ''html''"]
    by (simp add: updateIframe_content_def)
qed

section \<open>Copying the source\<close>

lemma foldl_fire_copied:
  "copied (foldl (\<lambda>q (d, cb). fire cb q) p ts) = (if ts = [] then copied p else False)"
proof (induction ts rule: rev_induct)
  case Nil
  show ?case by simp
next
  case (snoc t ts)
  obtain d cb where t: "t = (d, cb)" by (cases t)
  show ?case by (cases cb) (simp add: t)
qed

lemma sort_key_Nil_iff: "sort_key f xs = [] \<longleftrightarrow> xs = []"
  by (metis length_0_conv length_sort)

text \<open>
  C9. \<open>copyToClipboard\<close> hands the clipboard the source as the component received it
  (the prop \<open>code\<close>, not the normalised source nor the composed document), sets
  \<open>copied\<close>, and schedules its reset 2000 ms ahead: once 2000 ms have passed
  \<open>copied\<close> is false again, and with no older timer pending it stays true until then.
\<close>

theorem copyToClipboard_copies_raw_source:
  "clipboard_writes (snd (copyToClipboard (p, b))) = clipboard_writes b @ [code p] \<and>
   code (fst (copyToClipboard (p, b))) = code p \<and>
   copied (fst (copyToClipboard (p, b))) \<and>
   \<not> copied (fst (elapse 2000 (copyToClipboard (p, b)))) \<and>
   (timers b = [] \<and> ms < 2000 \<longrightarrow> copied (fst (elapse ms (copyToClipboard (p, b)))))"
  by (simp add: copyToClipboard_def setTimeout_def elapse_def Let_def foldl_fire_copied
      sort_key_Nil_iff)

theorem copyToClipboard_copies_raw_source_witness:
  "copied (fst (elapse 1999 (copyToClipboard
     (CodePreview (js ''export default function App(){}'') (js ''jsx'') None,
      \<lparr>clipboard_writes = [], timers = [], clock = 0\<rparr>)))) \<and>
   \<not> copied (fst (elapse 2000 (copyToClipboard
     (CodePreview (js ''export default function App(){}'') (js ''jsx'') None,
      \<lparr>clipboard_writes = [], timers = [], clock = 0\<rparr>)))) \<and>
   clipboard_writes (snd (copyToClipboard
     (CodePreview (js ''export default function App(){}'') (js ''jsx'') None,
      \<lparr>clipboard_writes = [], timers = [], clock = 0\<rparr>)))
   = [js ''export default function App(){}'']"
  using copyToClipboard_copies_raw_source
    [of "CodePreview (js ''export default function App(){}'') (js ''jsx'') None"
        "\<lparr>clipboard_writes = [], timers = [], clock = 0\<rparr>" 1999]
  by (simp add: CodePreview_def)

section \<open>Submitting a message\<close>

text \<open>
  The guard reads \<open>overrideInput || input\<close>: a call with an override, as \<open>handleDebug\<close>
  makes it, submits although the input field is empty.
\<close>

lemma handleSubmit_override_submits:
  "trim t \<noteq> [] \<Longrightarrow> \<not> isLoading c \<Longrightarrow>
   isLoading (handleSubmit False (Some t) now c) \<and>
   messages (handleSubmit False (Some t) now c) = messages c @ [userMessage now t c] \<and>
   input (handleSubmit False (Some t) now c) = input c"
  by (auto simp: handleSubmit_def messageInput_def trim_def)

text \<open>
  C10. A submission whose trimmed text is empty with no image selected, or that arrives
  while a request is in flight, returns the state as it was: messages, input, selected
  image, loading flag and all else. The form and the image button submit the input field
  (they pass no override), in both versions of the component; in a call with an override
  the text tested is \<open>overrideInput || input\<close>.
\<close>

theorem handleSubmit_guard_returns_unchanged:
  "((trim (input c) = [] \<and> selectedImage c = None) \<or> isLoading c \<longrightarrow>
      handleSubmit isImage None now c = c \<and> handleSubmit_earlier isImage now c = c) \<and>
   ((trim (messageInput ov c) = [] \<and> selectedImage c = None) \<or> isLoading c \<longrightarrow>
      handleSubmit isImage ov now c = c)"
  by (auto simp: handleSubmit_def handleSubmit_earlier_def messageInput_def)

theorem handleSubmit_guard_returns_unchanged_witness:
  "handleSubmit False None (js ''1700000000000'')
     \<lparr> messages = [], input = js ''   '', isLoading = False, selectedImage = None,
       isListening = False, isMicInitializing = False, speakingMessageId = None,
       isGeneratingSpeech = None \<rparr>
   = \<lparr> messages = [], input = js ''   '', isLoading = False, selectedImage = None,
       isListening = False, isMicInitializing = False, speakingMessageId = None,
       isGeneratingSpeech = None \<rparr> \<and>
   handleSubmit True (Some (js ''fix it'')) (js ''1700000000000'')
     \<lparr> messages = [], input = js ''hello'', isLoading = True, selectedImage = None,
       isListening = False, isMicInitializing = False, speakingMessageId = None,
       isGeneratingSpeech = None \<rparr>
   = \<lparr> messages = [], input = js ''hello'', isLoading = True, selectedImage = None,
       isListening = False, isMicInitializing = False, speakingMessageId = None,
       isGeneratingSpeech = None \<rparr>"
proof -
  let ?c = "\<lparr> messages = [], input = js ''   '', isLoading = False, selectedImage = None,
       isListening = False, isMicInitializing = False, speakingMessageId = None,
       isGeneratingSpeech = None \<rparr>"
  let ?d = "\<lparr> messages = [], input = js ''hello'', isLoading = True, selectedImage = None,
       isListening = False, isMicInitializing = False, speakingMessageId = None,
       isGeneratingSpeech = None \<rparr>"
  have h: "(trim (input ?c) = [] \<and> selectedImage ?c = None) \<or> isLoading ?c"
    by (simp add: trim_def js_def is_space_def)
  have g: "(trim (messageInput (Some (js ''fix it'')) ?d) = [] \<and> selectedImage ?d = None) \<or>
           isLoading ?d"
    by simp
  show ?thesis
    using handleSubmit_guard_returns_unchanged [of ?c False "js ''1700000000000''" None] h
      handleSubmit_guard_returns_unchanged [of ?d True "js ''1700000000000''" "Some (js ''fix it'')"] g
    by blast
qed

end
